theory Spec2Isabelle
  imports Complex_Main
begin

section \<open>The First Meaningful Paint audit of Lighthouse\<close>

text \<open>
  A shallow embedding of \<^verbatim>\<open>lighthouse-core/audits/metrics/first-meaningful-paint.js\<close>:
  the class \<^verbatim>\<open>FirstMeaningfulPaint\<close> with its static getter \<^verbatim>\<open>defaultOptions\<close> and its
  static async method \<^verbatim>\<open>audit(artifacts, context)\<close>.

  The file requires three modules that are not part of the sources at hand:
  \<^verbatim>\<open>../audit.js\<close> (the base class: \<^verbatim>\<open>Audit.DEFAULT_PASS\<close>, \<^verbatim>\<open>Audit.computeLogNormalScore\<close>),
  \<^verbatim>\<open>../../lib/i18n/i18n.js\<close> (\<^verbatim>\<open>str_\<close>, \<^verbatim>\<open>i18n.UIStrings.seconds\<close>) and
  \<^verbatim>\<open>../../computed/metrics/first-meaningful-paint.js\<close> (\<^verbatim>\<open>ComputedFmp.request\<close>).
  What the audit uses of them is a parameter of the model (the record \<open>collaborators\<close>
  below), so every theorem holds for whatever these modules compute. Two of them keep
  state of their own that outlives a run of the audit: the provider its cache of
  computed results, the localization module its table of message instances. Both are
  part of the shared state \<open>'state\<close> that the model threads through a run.
\<close>

subsection \<open>JavaScript values and strict equality\<close>

text \<open>
  The artifact \<^verbatim>\<open>TestedAsMobileDevice\<close> is compared with \<^verbatim>\<open>=== false\<close>, so the model keeps
  a JavaScript value there, whatever its type: the eight language types of ECMAScript.
  A number is NaN, an infinity or a finite value (\<^verbatim>\<open>+0\<close> and \<^verbatim>\<open>-0\<close> are both \<open>Finite 0\<close>:
  strict equality does not tell them apart); an object, a function or a symbol is known
  by its identity.
\<close>

datatype js_number = NaN | PosInfinity | NegInfinity | Finite real

datatype js_value =
    JUndefined
  | JNull
  | JBoolean bool
  | JNumber js_number
  | JBigInt int
  | JString string
  | JSymbol nat
  | JObject nat

text \<open>
  The operator \<^verbatim>\<open>===\<close> (IsStrictlyEqual): operands of different types are never equal,
  there is no coercion; NaN is not equal to itself.
\<close>

fun strict_equals :: "js_value \<Rightarrow> js_value \<Rightarrow> bool" where
  "strict_equals JUndefined JUndefined = True"
| "strict_equals JNull JNull = True"
| "strict_equals (JBoolean a) (JBoolean b) = (a = b)"
| "strict_equals (JNumber a) (JNumber b) = (a \<noteq> NaN \<and> b \<noteq> NaN \<and> a = b)"
| "strict_equals (JBigInt a) (JBigInt b) = (a = b)"
| "strict_equals (JString a) (JString b) = (a = b)"
| "strict_equals (JSymbol a) (JSymbol b) = (a = b)"
| "strict_equals (JObject a) (JObject b) = (a = b)"
| "strict_equals _ _ = False"

subsection \<open>The data of the audit\<close>

text \<open>
  \<^verbatim>\<open>LH.Audit.ScoreOptions\<close>: the two control points of the scoring curve, as the getter
  \<^verbatim>\<open>defaultOptions\<close> writes them.
\<close>

record ScoreOptions =
  scorePODR :: js_number
  scoreMedian :: js_number

text \<open>What the awaited \<^verbatim>\<open>ComputedFmp.request\<close> resolves to; the audit reads \<^verbatim>\<open>timing\<close> only.\<close>

record metricResult =
  timing :: js_number

text \<open>
  The object literal \<^verbatim>\<open>{trace, devtoolsLog, settings: context.settings}\<close>. Indexing
  \<^verbatim>\<open>artifacts.traces\<close> with a pass it does not hold gives \<^verbatim>\<open>undefined\<close>, here \<open>None\<close>.
\<close>

record ('trace, 'log, 'settings) computationInput =
  trace :: "'trace option"
  devtoolsLog :: "'log option"
  settings :: 'settings

text \<open>The three required artifacts: \<^verbatim>\<open>traces\<close> and \<^verbatim>\<open>devtoolsLogs\<close> are keyed by pass name.\<close>

record ('trace, 'log) artifacts =
  traces :: "string \<rightharpoonup> 'trace"
  devtoolsLogs :: "string \<rightharpoonup> 'log"
  TestedAsMobileDevice :: js_value

text \<open>
  \<^verbatim>\<open>LH.Audit.Context\<close>, as far as the audit reads it: \<^verbatim>\<open>context.settings\<close> and
  \<^verbatim>\<open>context.options\<close>, the latter indexed by a key computed at run time, hence a map.
  The cache of computed artifacts that the real context object also carries is mutable
  and belongs to the metric provider: it is part of the state \<open>'state\<close> threaded through
  \<open>request\<close> below.
\<close>

record 'settings audit_context =
  settings :: 'settings
  options :: "string \<rightharpoonup> ScoreOptions"

text \<open>\<^verbatim>\<open>LH.Audit.Product\<close>: the object literal the audit returns.\<close>

record product =
  score :: js_number
  numericValue :: js_number
  numericUnit :: string
  displayValue :: string

text \<open>
  How the promise returned by \<^verbatim>\<open>audit\<close> can reject: with whatever the awaited provider
  rejected with, or with the \<^verbatim>\<open>TypeError\<close> that JavaScript throws when
  \<^verbatim>\<open>scoreOptions.scorePODR\<close> is read and \<^verbatim>\<open>scoreOptions\<close> is \<^verbatim>\<open>undefined\<close>.
\<close>

datatype 'err rejection = UpstreamComputationFailure 'err | TypeError

subsection \<open>The modules the audit requires\<close>

text \<open>
  \<^item> \<open>DEFAULT_PASS\<close>: the constant \<^verbatim>\<open>Audit.DEFAULT_PASS\<close>.
  \<^item> \<open>request\<close>: \<^verbatim>\<open>ComputedFmp.request(metricComputationData, context)\<close>. It may read and
    update shared state (its cache), and the promise it returns resolves (\<open>Inr\<close>) or
    rejects (\<open>Inl\<close>).
  \<^item> \<open>computeLogNormalScore\<close>: \<^verbatim>\<open>Audit.computeLogNormalScore(measured, podr, median)\<close>,
    which the specification describes as a pure function that raises no exception.
  \<^item> \<open>i18n_UIStrings_seconds\<close> and \<open>str_fn\<close>: the message \<^verbatim>\<open>i18n.UIStrings.seconds\<close> and the
    function \<^verbatim>\<open>str_\<close> obtained from \<^verbatim>\<open>i18n.createMessageInstanceIdFn\<close>, applied to a
    message and an object of values (its entries, as a list). It returns a string, and
    as the specification's design notes say of it, it works on a side table at module
    scope, process-wide mutable registration state: so it reads and may update the
    shared state as well.
\<close>

record ('trace, 'log, 'settings, 'err, 'state) collaborators =
  DEFAULT_PASS :: string
  request :: "('trace, 'log, 'settings) computationInput \<Rightarrow> 'settings audit_context
                \<Rightarrow> 'state \<Rightarrow> ('err + metricResult) \<times> 'state"
  computeLogNormalScore :: "js_number \<Rightarrow> js_number \<Rightarrow> js_number \<Rightarrow> js_number"
  i18n_UIStrings_seconds :: string
  str_fn :: "string \<Rightarrow> (string \<times> js_number) list \<Rightarrow> 'state \<Rightarrow> string \<times> 'state"

subsection \<open>The class FirstMeaningfulPaint\<close>

text \<open>\<^verbatim>\<open>static get defaultOptions()\<close>: an object with the keys \<^verbatim>\<open>mobile\<close> and \<^verbatim>\<open>desktop\<close>.\<close>

definition defaultOptions :: "string \<rightharpoonup> ScoreOptions" where
  "defaultOptions =
     [''mobile'' \<mapsto> \<lparr>scorePODR = Finite 2000, scoreMedian = Finite 4000\<rparr>,
      ''desktop'' \<mapsto> \<lparr>scorePODR = Finite 800, scoreMedian = Finite 1600\<rparr>]"

text \<open>The local constant \<^verbatim>\<open>metricComputationData\<close> of \<^verbatim>\<open>audit\<close> (lines 66 to 68).\<close>

definition metricComputationData ::
  "('trace, 'log, 'settings, 'err, 'state) collaborators \<Rightarrow> ('trace, 'log) artifacts
     \<Rightarrow> 'settings audit_context \<Rightarrow> ('trace, 'log, 'settings) computationInput" where
  "metricComputationData E artifacts ctx =
     \<lparr>trace = traces artifacts (DEFAULT_PASS E),
      devtoolsLog = devtoolsLogs artifacts (DEFAULT_PASS E),
      settings = audit_context.settings ctx\<rparr>"

text \<open>
  The local constant \<^verbatim>\<open>scoreOptions\<close> of \<^verbatim>\<open>audit\<close> (lines 70 and 71):
  \<^verbatim>\<open>context.options[artifacts.TestedAsMobileDevice === false ? 'desktop' : 'mobile']\<close>.
  \<open>None\<close> is \<^verbatim>\<open>undefined\<close>: the key is not configured.
\<close>

definition scoreOptions ::
  "('trace, 'log) artifacts \<Rightarrow> 'settings audit_context \<Rightarrow> ScoreOptions option" where
  "scoreOptions artifacts ctx =
     options ctx
       (if strict_equals (TestedAsMobileDevice artifacts) (JBoolean False)
        then ''desktop'' else ''mobile'')"

text \<open>
  \<^verbatim>\<open>static async audit(artifacts, context)\<close>. The function awaits the provider first; a
  rejection there ends the function with the same rejection. Only then it resolves the
  score options and builds the product, field by field: the arguments of
  \<^verbatim>\<open>computeLogNormalScore\<close> are evaluated first (the \<^verbatim>\<open>TypeError\<close> comes before any call),
  and \<^verbatim>\<open>str_\<close> is called last, for \<^verbatim>\<open>displayValue\<close>. The second component is the shared
  state after the run.
\<close>

definition audit ::
  "('trace, 'log, 'settings, 'err, 'state) collaborators \<Rightarrow> ('trace, 'log) artifacts
     \<Rightarrow> 'settings audit_context \<Rightarrow> 'state \<Rightarrow> ('err rejection + product) \<times> 'state" where
  "audit E artifacts ctx s =
     (case request E (metricComputationData E artifacts ctx) ctx s of
        (Inl e, s') \<Rightarrow> (Inl (UpstreamComputationFailure e), s')
      | (Inr metricResult, s') \<Rightarrow>
          (case scoreOptions artifacts ctx of
             None \<Rightarrow> (Inl TypeError, s')
           | Some opts \<Rightarrow>
               (case str_fn E (i18n_UIStrings_seconds E)
                       [(''timeInMs'', timing metricResult)] s' of
                  (display, s'') \<Rightarrow>
                    (Inr \<lparr>score = computeLogNormalScore E (timing metricResult)
                                     (scorePODR opts) (scoreMedian opts),
                          numericValue = timing metricResult,
                          numericUnit = ''millisecond'',
                          displayValue = display\<rparr>, s''))))"

subsection \<open>The invariant of score parameters, in the words of the specification\<close>

text \<open>
  The specification's data model calls a parameter set valid when both thresholds are
  positive real numbers and the low threshold (\<^verbatim>\<open>scorePODR\<close>) is below the median
  threshold (\<^verbatim>\<open>scoreMedian\<close>). The source has no such predicate; this one follows the
  specification and is what the theorems compare the code with.
\<close>

definition ScoreParameters_invariant :: "ScoreOptions \<Rightarrow> bool" where
  "ScoreParameters_invariant p =
     (case (scorePODR p, scoreMedian p) of
        (Finite lowThreshold, Finite medianThreshold) \<Rightarrow>
           0 < lowThreshold \<and> 0 < medianThreshold \<and> lowThreshold < medianThreshold
      | _ \<Rightarrow> False)"

subsection \<open>Sample collaborators\<close>

text \<open>
  Concrete stand-ins for the required modules, used to run the audit on concrete
  inputs. A trace is the list of its candidate paint times; the sample provider fails on
  a missing or empty trace and caches every outcome under the trace it was asked about.
  The sample scoring function is a stand-in with the right type, not Lighthouse's curve.
  The sample localization keeps a table of the message instances it was given: an
  instance it has not seen is appended, and the string returned is the message followed
  by the instance's index in the table, written as that many \<^verbatim>\<open>+\<close> signs. The shared state
  is the pair of the provider's cache and this table.
\<close>

definition sample_compute :: "(nat list, unit, unit) computationInput \<Rightarrow> string + metricResult" where
  "sample_compute d =
     (case trace d of
        None \<Rightarrow> Inl ''NO_TRACING_STARTED''
      | Some [] \<Rightarrow> Inl ''NO_FMP''
      | Some (t # _) \<Rightarrow> Inr \<lparr>timing = Finite (real t)\<rparr>)"

type_synonym sample_cache = "nat list option \<rightharpoonup> string + metricResult"

type_synonym message_table = "(string \<times> (string \<times> js_number) list) list"

type_synonym sample_state = "sample_cache \<times> message_table"

definition sample_request ::
  "(nat list, unit, unit) computationInput \<Rightarrow> unit audit_context \<Rightarrow> sample_state
     \<Rightarrow> (string + metricResult) \<times> sample_state" where
  "sample_request d ctx s =
     (case s of (cache, table) \<Rightarrow>
        (case cache (trace d) of
           Some r \<Rightarrow> (r, (cache, table))
         | None \<Rightarrow> (sample_compute d, (cache(trace d \<mapsto> sample_compute d), table))))"

fun index_of :: "'a \<Rightarrow> 'a list \<Rightarrow> nat" where
  "index_of x [] = 0"
| "index_of x (y # ys) = (if x = y then 0 else Suc (index_of x ys))"

definition sample_str ::
  "string \<Rightarrow> (string \<times> js_number) list \<Rightarrow> sample_state \<Rightarrow> string \<times> sample_state" where
  "sample_str message values s =
     (case s of (cache, table) \<Rightarrow>
        (message @ '' #'' @ replicate (index_of (message, values) table) (CHR ''+''),
         (cache, if (message, values) \<in> set table then table
                 else table @ [(message, values)])))"

definition sample_score :: "js_number \<Rightarrow> js_number \<Rightarrow> js_number \<Rightarrow> js_number" where
  "sample_score measured podr median =
     (case (measured, median) of
        (Finite x, Finite m) \<Rightarrow> if 0 < m + x then Finite (m / (m + x)) else NaN
      | _ \<Rightarrow> NaN)"

definition sample_collaborators ::
  "(nat list, unit, unit, string, sample_state) collaborators" where
  "sample_collaborators =
     \<lparr>DEFAULT_PASS = ''defaultPass'',
      request = sample_request,
      computeLogNormalScore = sample_score,
      i18n_UIStrings_seconds = ''seconds'',
      str_fn = sample_str\<rparr>"

definition sample_artifacts :: "js_value \<Rightarrow> (nat list, unit) artifacts" where
  "sample_artifacts tested_as_mobile =
     \<lparr>traces = [''defaultPass'' \<mapsto> [2000, 2600]],
      devtoolsLogs = [''defaultPass'' \<mapsto> ()],
      TestedAsMobileDevice = tested_as_mobile\<rparr>"

definition sample_context :: "unit audit_context" where
  "sample_context = \<lparr>settings = (), options = defaultOptions\<rparr>"

text \<open>
  A provider that rejects every request and counts how often it was asked (the state is
  the number of requests made so far), and a context whose configured parameter sets
  both break the invariant of score parameters.
\<close>

definition failing_collaborators ::
  "(nat list, unit, unit, string, nat) collaborators" where
  "failing_collaborators =
     \<lparr>DEFAULT_PASS = ''defaultPass'',
      request = (\<lambda>d ctx calls. (Inl ''NO_FMP'', Suc calls)),
      computeLogNormalScore = sample_score,
      i18n_UIStrings_seconds = ''seconds'',
      str_fn = (\<lambda>message values calls. (message, calls))\<rparr>"

definition invalid_context :: "unit audit_context" where
  "invalid_context =
     \<lparr>settings = (),
      options = [''mobile'' \<mapsto> \<lparr>scorePODR = Finite 4000, scoreMedian = Finite 2000\<rparr>,
                 ''desktop'' \<mapsto> \<lparr>scorePODR = Finite 0, scoreMedian = Finite (- 1)\<rparr>]\<rparr>"

section \<open>Properties\<close>

subsection \<open>Strict comparison with false\<close>

lemma strict_equals_False_iff: "strict_equals v (JBoolean False) \<longleftrightarrow> v = JBoolean False"
  by (cases v) auto

lemma scoreOptions_eq:
  "scoreOptions artifacts ctx =
     (if TestedAsMobileDevice artifacts = JBoolean False
      then options ctx ''desktop'' else options ctx ''mobile'')"
  by (simp add: scoreOptions_def strict_equals_False_iff)

subsection \<open>The default options\<close>

text \<open>
  C5. The built-in default score parameters are: mobile PODR 2000 and median 4000,
  desktop PODR 800 and median 1600; no other key is configured by default; and each of
  the two sets satisfies the invariant of score parameters: both values positive and
  the PODR below the median.
\<close>

theorem defaultOptions_values:
  "defaultOptions ''mobile'' = Some \<lparr>scorePODR = Finite 2000, scoreMedian = Finite 4000\<rparr>
   \<and> defaultOptions ''desktop'' = Some \<lparr>scorePODR = Finite 800, scoreMedian = Finite 1600\<rparr>
   \<and> dom defaultOptions = {''mobile'', ''desktop''}
   \<and> ScoreParameters_invariant (the (defaultOptions ''mobile''))
   \<and> ScoreParameters_invariant (the (defaultOptions ''desktop''))"
  by (auto simp: defaultOptions_def ScoreParameters_invariant_def split: if_splits)

subsection \<open>Options resolution\<close>

text \<open>
  C3. Options resolution takes the \<^verbatim>\<open>desktop\<close> entry of the configured options exactly
  when the classification artifact is the boolean \<^verbatim>\<open>false\<close> (it says "not mobile"
  explicitly), and the \<^verbatim>\<open>mobile\<close> entry exactly when it is anything else; in particular
  an absent classification (\<^verbatim>\<open>undefined\<close>) and \<^verbatim>\<open>true\<close> both fall back to the mobile
  entry. "Exactly when" is read over all configurations: the artifact alone decides the
  key.
\<close>

theorem scoreOptions_desktop_iff_explicit_false:
  "((\<forall>ctx :: 'settings audit_context. scoreOptions artifacts ctx = options ctx ''desktop'')
      \<longleftrightarrow> TestedAsMobileDevice artifacts = JBoolean False)
   \<and> ((\<forall>ctx :: 'settings audit_context. scoreOptions artifacts ctx = options ctx ''mobile'')
      \<longleftrightarrow> TestedAsMobileDevice artifacts \<noteq> JBoolean False)
   \<and> scoreOptions (artifacts\<lparr>TestedAsMobileDevice := JBoolean False\<rparr>)
         (cfg :: 'settings audit_context) = options cfg ''desktop''
   \<and> scoreOptions (artifacts\<lparr>TestedAsMobileDevice := JBoolean True\<rparr>) cfg = options cfg ''mobile''
   \<and> scoreOptions (artifacts\<lparr>TestedAsMobileDevice := JUndefined\<rparr>) cfg = options cfg ''mobile''"
proof -
  define c :: "'settings audit_context"
    where "c = \<lparr>settings = undefined, options = [''desktop'' \<mapsto> \<lparr>scorePODR = Finite 800, scoreMedian = Finite 1600\<rparr>]\<rparr>"
  have differ: "options c ''desktop'' \<noteq> options c ''mobile''"
    by (simp add: c_def)
  have d: "(\<forall>ctx :: 'settings audit_context. scoreOptions artifacts ctx = options ctx ''desktop'')
      \<longleftrightarrow> TestedAsMobileDevice artifacts = JBoolean False"
  proof
    assume all: "\<forall>ctx :: 'settings audit_context. scoreOptions artifacts ctx = options ctx ''desktop''"
    show "TestedAsMobileDevice artifacts = JBoolean False"
    proof (rule ccontr)
      assume "TestedAsMobileDevice artifacts \<noteq> JBoolean False"
      then have "scoreOptions artifacts c = options c ''mobile''"
        by (simp add: scoreOptions_eq)
      with all differ show False by simp
    qed
  next
    assume "TestedAsMobileDevice artifacts = JBoolean False"
    then show "\<forall>ctx :: 'settings audit_context. scoreOptions artifacts ctx = options ctx ''desktop''"
      by (simp add: scoreOptions_eq)
  qed
  have m: "(\<forall>ctx :: 'settings audit_context. scoreOptions artifacts ctx = options ctx ''mobile'')
      \<longleftrightarrow> TestedAsMobileDevice artifacts \<noteq> JBoolean False"
  proof
    assume all: "\<forall>ctx :: 'settings audit_context. scoreOptions artifacts ctx = options ctx ''mobile''"
    show "TestedAsMobileDevice artifacts \<noteq> JBoolean False"
    proof
      assume "TestedAsMobileDevice artifacts = JBoolean False"
      then have "scoreOptions artifacts c = options c ''desktop''"
        by (simp add: scoreOptions_eq)
      with all differ show False by simp
    qed
  next
    assume "TestedAsMobileDevice artifacts \<noteq> JBoolean False"
    then show "\<forall>ctx :: 'settings audit_context. scoreOptions artifacts ctx = options ctx ''mobile''"
      by (simp add: scoreOptions_eq)
  qed
  show ?thesis
    using d m by (simp add: scoreOptions_eq)
qed

text \<open>
  On the default options: \<^verbatim>\<open>false\<close> resolves to the desktop set, \<^verbatim>\<open>true\<close> and
  \<^verbatim>\<open>undefined\<close> to the mobile set.
\<close>

theorem scoreOptions_desktop_iff_explicit_false_witness:
  "scoreOptions (sample_artifacts (JBoolean False)) sample_context
     = Some \<lparr>scorePODR = Finite 800, scoreMedian = Finite 1600\<rparr>
   \<and> scoreOptions (sample_artifacts (JBoolean True)) sample_context
     = Some \<lparr>scorePODR = Finite 2000, scoreMedian = Finite 4000\<rparr>
   \<and> scoreOptions (sample_artifacts JUndefined) sample_context
     = Some \<lparr>scorePODR = Finite 2000, scoreMedian = Finite 4000\<rparr>"
  using scoreOptions_desktop_iff_explicit_false
          [where artifacts = "sample_artifacts JUndefined" and cfg = sample_context]
  by (simp add: sample_artifacts_def sample_context_def defaultOptions_def)

text \<open>
  C10. The comparison is strict: every value of the classification artifact other than
  the boolean \<^verbatim>\<open>false\<close> selects the mobile set, with no coercion. That covers
  \<^verbatim>\<open>true\<close>, \<^verbatim>\<open>undefined\<close>, \<^verbatim>\<open>null\<close>, \<^verbatim>\<open>0\<close>, \<^verbatim>\<open>1\<close>, \<^verbatim>\<open>NaN\<close>, the empty string, the
  strings \<^verbatim>\<open>"false"\<close> and \<^verbatim>\<open>"desktop"\<close>, and every object. Only the boolean \<^verbatim>\<open>false\<close>
  selects the desktop set.
\<close>

theorem scoreOptions_mobile_unless_strict_false:
  "(v \<noteq> JBoolean False \<longrightarrow>
      scoreOptions (artifacts\<lparr>TestedAsMobileDevice := v\<rparr>) ctx = options ctx ''mobile'')
   \<and> (strict_equals v (JBoolean False) \<longleftrightarrow> v = JBoolean False)
   \<and> (\<forall>w \<in> {JBoolean True, JUndefined, JNull, JNumber (Finite 0), JNumber (Finite 1),
              JNumber NaN, JString [], JString ''false'', JString ''desktop'', JObject n}.
         scoreOptions (artifacts\<lparr>TestedAsMobileDevice := w\<rparr>) ctx = options ctx ''mobile'')
   \<and> scoreOptions (artifacts\<lparr>TestedAsMobileDevice := JBoolean False\<rparr>) ctx = options ctx ''desktop''"
  by (simp add: scoreOptions_eq strict_equals_False_iff)

text \<open>On the default options: the string \<^verbatim>\<open>"false"\<close>, \<^verbatim>\<open>null\<close>, \<^verbatim>\<open>0\<close> and the empty string.\<close>

theorem scoreOptions_mobile_unless_strict_false_witness:
  "JString ''false'' \<noteq> JBoolean False
   \<and> scoreOptions (sample_artifacts (JString ''false'')) sample_context
       = Some \<lparr>scorePODR = Finite 2000, scoreMedian = Finite 4000\<rparr>
   \<and> scoreOptions (sample_artifacts JNull) sample_context
       = Some \<lparr>scorePODR = Finite 2000, scoreMedian = Finite 4000\<rparr>
   \<and> scoreOptions (sample_artifacts (JNumber (Finite 0))) sample_context
       = Some \<lparr>scorePODR = Finite 2000, scoreMedian = Finite 4000\<rparr>
   \<and> scoreOptions (sample_artifacts (JString [])) sample_context
       = Some \<lparr>scorePODR = Finite 2000, scoreMedian = Finite 4000\<rparr>"
  using scoreOptions_mobile_unless_strict_false
          [where v = "JString ''false''" and artifacts = "sample_artifacts JUndefined"
             and ctx = sample_context]
  by (simp add: sample_artifacts_def sample_context_def defaultOptions_def)

subsection \<open>Failure of the metric provider\<close>

text \<open>
  C4. Whenever the request to the metric provider rejects, the audit rejects with the
  very value the provider rejected with, and the shared state is the one that single
  request left: nothing is retried or recovered. No product is returned, so the failure
  never shows as a score of any value.
\<close>

theorem audit_propagates_provider_failure:
  assumes "request E (metricComputationData E artifacts ctx) ctx s = (Inl e, s')"
  shows "audit E artifacts ctx s = (Inl (UpstreamComputationFailure e), s')
         \<and> (\<forall>p. fst (audit E artifacts ctx s) \<noteq> Inr p)"
  using assms by (simp add: audit_def)

text \<open>
  With the provider that counts its requests, the audit ends after exactly one request;
  with the sample provider and no trace for the default pass, the provider's own error
  comes back, and no message was registered.
\<close>

theorem audit_propagates_provider_failure_witness:
  "audit failing_collaborators (sample_artifacts (JBoolean True)) sample_context 0
     = (Inl (UpstreamComputationFailure ''NO_FMP''), 1)
   \<and> audit sample_collaborators
        ((sample_artifacts (JBoolean True))\<lparr>traces := Map.empty\<rparr>) sample_context
        (Map.empty, [])
     = (Inl (UpstreamComputationFailure ''NO_TRACING_STARTED''),
        ([None \<mapsto> Inl ''NO_TRACING_STARTED''], []))"
proof
  have "request failing_collaborators
          (metricComputationData failing_collaborators (sample_artifacts (JBoolean True))
             sample_context) sample_context 0 = (Inl ''NO_FMP'', 1)"
    by (simp add: failing_collaborators_def)
  from audit_propagates_provider_failure [OF this]
  show "audit failing_collaborators (sample_artifacts (JBoolean True)) sample_context 0
     = (Inl (UpstreamComputationFailure ''NO_FMP''), 1)"
    by simp
next
  let ?a = "(sample_artifacts (JBoolean True))\<lparr>traces := Map.empty\<rparr>"
  have "request sample_collaborators
          (metricComputationData sample_collaborators ?a sample_context) sample_context
          (Map.empty, [])
        = (Inl ''NO_TRACING_STARTED'', ([None \<mapsto> Inl ''NO_TRACING_STARTED''], []))"
    by (simp add: sample_collaborators_def sample_request_def sample_compute_def
          metricComputationData_def sample_artifacts_def)
  from audit_propagates_provider_failure [OF this]
  show "audit sample_collaborators ?a sample_context (Map.empty, [])
     = (Inl (UpstreamComputationFailure ''NO_TRACING_STARTED''),
        ([None \<mapsto> Inl ''NO_TRACING_STARTED''], []))"
    by simp
qed

subsection \<open>The product of a successful run\<close>

text \<open>
  C6. The audit returns a product exactly when the provider resolved and the selected
  options are configured, and then the product's \<^verbatim>\<open>numericValue\<close> is the provider's timing
  as it is, its \<^verbatim>\<open>numericUnit\<close> is the string \<^verbatim>\<open>millisecond\<close>, its \<^verbatim>\<open>score\<close> is the scoring
  function at that timing and the resolved parameter set, and its \<^verbatim>\<open>displayValue\<close> is
  what the localization function returns for the seconds message and that timing, called
  in the state the provider's request left; the state after the run is the state that
  call left.
\<close>

theorem audit_product_fields:
  "audit E artifacts ctx s = (Inr p, s'') \<longleftrightarrow>
     (\<exists>m opts s'.
        request E (metricComputationData E artifacts ctx) ctx s = (Inr m, s')
        \<and> scoreOptions artifacts ctx = Some opts
        \<and> p = \<lparr>score = computeLogNormalScore E (timing m) (scorePODR opts) (scoreMedian opts),
                numericValue = timing m,
                numericUnit = ''millisecond'',
                displayValue =
                  fst (str_fn E (i18n_UIStrings_seconds E) [(''timeInMs'', timing m)] s')\<rparr>
        \<and> s'' = snd (str_fn E (i18n_UIStrings_seconds E) [(''timeInMs'', timing m)] s'))"
  by (auto simp: audit_def split: prod.splits sum.splits option.splits)

text \<open>A mobile run on the sample trace, from an empty cache and an empty message table.\<close>

theorem audit_product_fields_witness:
  "audit sample_collaborators (sample_artifacts (JBoolean True)) sample_context (Map.empty, [])
     = (Inr \<lparr>score = Finite (2 / 3), numericValue = Finite 2000,
              numericUnit = ''millisecond'', displayValue = ''seconds #''\<rparr>,
        ([Some [2000, 2600] \<mapsto> Inr \<lparr>timing = Finite 2000\<rparr>],
         [(''seconds'', [(''timeInMs'', Finite 2000)])]))"
  by (rule iffD2 [OF audit_product_fields])
     (simp add: sample_collaborators_def sample_request_def sample_compute_def
        sample_score_def sample_str_def metricComputationData_def sample_artifacts_def
        sample_context_def scoreOptions_eq defaultOptions_def)

subsection \<open>Running the audit twice\<close>




subsection \<open>Invalid configurations\<close>

text \<open>
  C9, as stated, fails: the options-resolution step has no defensive check. With the
  parameter set \<^verbatim>\<open>{scorePODR: 4000, scoreMedian: 2000}\<close> configured for mobile, which
  breaks the invariant, the step returns that set and the audit returns a product whose
  score is the scoring function at it.
\<close>

theorem invalid_configuration_not_rejected:
  "\<not> ScoreParameters_invariant \<lparr>scorePODR = Finite 4000, scoreMedian = Finite 2000\<rparr>
   \<and> options invalid_context ''mobile''
       = Some \<lparr>scorePODR = Finite 4000, scoreMedian = Finite 2000\<rparr>
   \<and> scoreOptions (sample_artifacts (JBoolean True)) invalid_context
       = Some \<lparr>scorePODR = Finite 4000, scoreMedian = Finite 2000\<rparr>
   \<and> audit sample_collaborators (sample_artifacts (JBoolean True)) invalid_context
         (Map.empty, [])
       = (Inr \<lparr>score = Finite (1 / 2), numericValue = Finite 2000,
                numericUnit = ''millisecond'', displayValue = ''seconds #''\<rparr>,
          ([Some [2000, 2600] \<mapsto> Inr \<lparr>timing = Finite 2000\<rparr>],
           [(''seconds'', [(''timeInMs'', Finite 2000)])]))"
  by (simp add: ScoreParameters_invariant_def audit_def sample_collaborators_def
        sample_request_def sample_compute_def sample_score_def sample_str_def
        metricComputationData_def sample_artifacts_def invalid_context_def scoreOptions_eq)

text \<open>
  C9, amended. Options resolution is a plain lookup of the selected key, with no check
  of what is found there: whatever parameter set is configured under that key, valid or
  not, is the resolved set, and when the provider resolves, the audit returns a product
  whose score is the scoring function applied to the timing and that set, unchanged.
  The hypothesis is on the configuration alone: the set configured under the key that
  the classification artifact selects.
\<close>

theorem audit_scores_unvalidated_options:
  assumes "request E (metricComputationData E artifacts ctx) ctx s = (Inr m, s')"
    and "options ctx (if TestedAsMobileDevice artifacts = JBoolean False
                      then ''desktop'' else ''mobile'') = Some opts"
  shows "scoreOptions artifacts ctx = Some opts
         \<and> (\<exists>p s''. audit E artifacts ctx s = (Inr p, s'')
                \<and> score p = computeLogNormalScore E (timing m) (scorePODR opts) (scoreMedian opts))"
proof
  from assms(2) show resolved: "scoreOptions artifacts ctx = Some opts"
    by (simp add: scoreOptions_eq split: if_splits)
  with assms(1)
  show "\<exists>p s''. audit E artifacts ctx s = (Inr p, s'')
              \<and> score p = computeLogNormalScore E (timing m) (scorePODR opts) (scoreMedian opts)"
    by (simp add: audit_def split: prod.splits)
qed

text \<open>
  A desktop run with the thresholds 0 and -1 configured: the set is resolved as it is
  and scored (by the sample scoring function, to a negative number).
\<close>

theorem audit_scores_unvalidated_options_witness:
  "\<not> ScoreParameters_invariant \<lparr>scorePODR = Finite 0, scoreMedian = Finite (- 1)\<rparr>
   \<and> scoreOptions (sample_artifacts (JBoolean False)) invalid_context
       = Some \<lparr>scorePODR = Finite 0, scoreMedian = Finite (- 1)\<rparr>
   \<and> (\<exists>p s''. audit sample_collaborators (sample_artifacts (JBoolean False)) invalid_context
                 (Map.empty, [])
               = (Inr p, s'')
          \<and> score p = Finite (- (1 / 1999)))"
proof -
  let ?a = "sample_artifacts (JBoolean False)"
  have r: "request sample_collaborators
          (metricComputationData sample_collaborators ?a invalid_context) invalid_context
          (Map.empty, [])
        = (Inr \<lparr>timing = Finite 2000\<rparr>,
           ([Some [2000, 2600] \<mapsto> Inr \<lparr>timing = Finite 2000\<rparr>], []))"
    by (simp add: sample_collaborators_def sample_request_def sample_compute_def
          metricComputationData_def sample_artifacts_def)
  have o: "options invalid_context (if TestedAsMobileDevice ?a = JBoolean False
                                   then ''desktop'' else ''mobile'')
           = Some \<lparr>scorePODR = Finite 0, scoreMedian = Finite (- 1)\<rparr>"
    by (simp add: sample_artifacts_def invalid_context_def)
  have c: "computeLogNormalScore sample_collaborators (Finite 2000) (Finite 0) (Finite (- 1))
           = Finite (- (1 / 1999))"
    by (simp add: sample_collaborators_def sample_score_def)
  from audit_scores_unvalidated_options [OF r o] show ?thesis
    by (simp add: ScoreParameters_invariant_def c)
qed

end
